theory Spec2Isabelle
  imports Main "HOL-Library.Word"
begin

section \<open>The snap manager of overlord/snapstate/snapmgr.go\<close>

text \<open>
  The file under verification defines the \<open>SnapManager\<close>: five payload structs, the
  constructor \<open>Manager\<close> that registers eight task handlers with a task runner, the six
  production handlers \<open>doInstallSnap\<close> ... \<open>doSetActiveSnap\<close>, and the three lifecycle
  methods \<open>Ensure\<close>, \<open>Wait\<close> and \<open>Stop\<close>.

  The handlers are effectful: they lock and unlock the state, read the task and call the
  backend. The embedding passes an explicit world through every call. The world holds the
  state locks, the state of the backend, and a trace that records every call made on the
  state store and on the backend, in order.
\<close>

subsection \<open>Values of the collaborating packages\<close>

text \<open>A Go \<open>error\<close> value; the \<open>nil\<close> error is \<open>None\<close> of \<open>error option\<close>.
  \<open>fmt.Errorf\<close> with a format string without verbs yields an error with that text.\<close>

datatype error = Errorf string

text \<open>\<open>*state.State\<close>: a handle to a state store, each with its own global lock.\<close>

type_synonym State = nat

text \<open>\<open>*tomb.Tomb\<close>, the cancellation handle given to every handler; the flag tells
  whether the tomb is dying.\<close>

datatype Tomb = Tomb bool

text \<open>\<open>&progress.NullProgress{}\<close>, the only progress meter this file creates.\<close>

datatype progress = NullProgress

text \<open>The flag types \<open>snappy.InstallFlags\<close>, \<open>snappy.RemoveFlags\<close> and
  \<open>snappy.PurgeFlags\<close> are declared in package snappy. They are bitsets that this file
  only copies; they are taken as machine words.\<close>

type_synonym InstallFlags = "64 word"
type_synonym RemoveFlags = "64 word"
type_synonym PurgeFlags = "64 word"

text \<open>The first result of the backend's \<open>Install\<close> and \<open>Rollback\<close>, which the handlers
  discard.\<close>

datatype result = Result string

subsection \<open>Payload structs\<close>

text \<open>The five structs of the source. Record fields share one name space, so each
  field carries the initials of its struct: \<open>inst_Name\<close> is \<open>installState.Name\<close>.\<close>

record installState =
  inst_Name :: string
  inst_Channel :: string
  inst_Flags :: InstallFlags

record removeState =
  rm_Name :: string
  rm_Flags :: RemoveFlags

record purgeState =
  purge_Name :: string
  purge_Flags :: PurgeFlags

record rollbackState =
  rollback_Name :: string
  rollback_Version :: string

record setActiveState =
  setActive_Name :: string
  setActive_Active :: bool

subsection \<open>The world: locks, trace and backend state\<close>

text \<open>One entry of the trace per call on the state store (\<open>Lock\<close>, \<open>Unlock\<close>, \<open>Get\<close>,
  \<open>Set\<close>) and per call on the backend, with the arguments of the call.\<close>

datatype event =
    EvLock State
  | EvUnlock State
  | EvGet string
  | EvSet string
  | CallInstall string string InstallFlags progress
  | CallUpdate string string InstallFlags progress
  | CallRemove string RemoveFlags progress
  | CallPurge string PurgeFlags progress
  | CallRollback string string progress
  | CallSetActive string bool progress

record 'b world =
  locked :: "State \<Rightarrow> bool"
  trace :: "event list"
  bstate :: 'b

fun is_backend_call :: "event \<Rightarrow> bool" where
  "is_backend_call (EvLock _) = False"
| "is_backend_call (EvUnlock _) = False"
| "is_backend_call (EvGet _) = False"
| "is_backend_call (EvSet _) = False"
| "is_backend_call _ = True"

text \<open>The calls that read or write the data of the store.\<close>

fun is_data_access :: "event \<Rightarrow> bool" where
  "is_data_access (EvGet _) = True"
| "is_data_access (EvSet _) = True"
| "is_data_access _ = False"

text \<open>The events a computation adds to the trace of the world it starts in.\<close>

definition added :: "'b world \<Rightarrow> 'b world \<Rightarrow> event list" where
  "added w w' = drop (length (trace w)) (trace w')"

text \<open>The events of a trace that happen while the lock of state \<open>s\<close> is held; \<open>h\<close> tells
  whether the lock is held when the trace starts. The \<open>Lock\<close> and \<open>Unlock\<close> calls
  themselves delimit the section and are not part of it.\<close>

fun under_lock :: "State \<Rightarrow> bool \<Rightarrow> event list \<Rightarrow> event list" where
  "under_lock s h [] = []"
| "under_lock s h (EvLock s' # es) = under_lock s (if s' = s then True else h) es"
| "under_lock s h (EvUnlock s' # es) = under_lock s (if s' = s then False else h) es"
| "under_lock s h (e # es) = (if h then e # under_lock s h es else under_lock s h es)"

subsection \<open>The state store as the handlers use it\<close>

text \<open>
  Modelled from the spec: \<open>state.Task\<close> and \<open>state.State\<close> are declared in package state,
  outside this file. The spec gives their contract: \<open>Lock()\<close>/\<open>Unlock()\<close> on the store
  handle, and \<open>Get(key, &typedOut) error\<close>, which deserializes the task's entry under
  \<open>key\<close> into the given typed structure or fails with a not-found or decode error.
  A task is modelled by the state it belongs to and by the outcome of \<open>Get\<close> for every key
  and each of the five structs of this file: \<open>Inl\<close> the error, \<open>Inr\<close> the filled struct.
\<close>

record Task =
  task_State :: State
  Get_installState :: "string \<Rightarrow> error + installState"
  Get_removeState :: "string \<Rightarrow> error + removeState"
  Get_purgeState :: "string \<Rightarrow> error + purgeState"
  Get_rollbackState :: "string \<Rightarrow> error + rollbackState"
  Get_setActiveState :: "string \<Rightarrow> error + setActiveState"

text \<open>\<open>s.Lock()\<close> returns once the caller holds the lock; waiting for another holder is
  not modelled.\<close>

definition Lock :: "State \<Rightarrow> 'b world \<Rightarrow> 'b world" where
  "Lock s w = w\<lparr>locked := (locked w)(s := True), trace := trace w @ [EvLock s]\<rparr>"

definition Unlock :: "State \<Rightarrow> 'b world \<Rightarrow> 'b world" where
  "Unlock s w = w\<lparr>locked := (locked w)(s := False), trace := trace w @ [EvUnlock s]\<rparr>"

text \<open>\<open>t.Get(key, &out)\<close>, with \<open>g\<close> the task's outcome function for the type of \<open>out\<close>.\<close>

definition Get :: "(string \<Rightarrow> error + 'a) \<Rightarrow> string \<Rightarrow> 'b world \<Rightarrow> (error + 'a) \<times> 'b world" where
  "Get g key w = (g key, w\<lparr>trace := trace w @ [EvGet key]\<rparr>)"

subsection \<open>The backend\<close>

text \<open>
  Modelled from the spec: the interface \<open>backendIF\<close> is declared elsewhere in package
  snapstate. The spec lists its six methods; each takes a progress sink and returns an
  error, \<open>Install\<close> and \<open>Rollback\<close> also a result. A backend is a record of six functions
  over a backend state \<open>'b\<close> of its own.
\<close>

record 'b backendIF =
  Install :: "string \<Rightarrow> string \<Rightarrow> InstallFlags \<Rightarrow> progress \<Rightarrow> 'b \<Rightarrow> (result \<times> error option) \<times> 'b"
  Update :: "string \<Rightarrow> string \<Rightarrow> InstallFlags \<Rightarrow> progress \<Rightarrow> 'b \<Rightarrow> error option \<times> 'b"
  Remove :: "string \<Rightarrow> RemoveFlags \<Rightarrow> progress \<Rightarrow> 'b \<Rightarrow> error option \<times> 'b"
  Purge :: "string \<Rightarrow> PurgeFlags \<Rightarrow> progress \<Rightarrow> 'b \<Rightarrow> error option \<times> 'b"
  Rollback :: "string \<Rightarrow> string \<Rightarrow> progress \<Rightarrow> 'b \<Rightarrow> (result \<times> error option) \<times> 'b"
  SetActive :: "string \<Rightarrow> bool \<Rightarrow> progress \<Rightarrow> 'b \<Rightarrow> error option \<times> 'b"

text \<open>A call of a backend method: the call is recorded in the trace and the method runs
  on the backend state.\<close>

definition call_Install ::
  "'b backendIF \<Rightarrow> string \<Rightarrow> string \<Rightarrow> InstallFlags \<Rightarrow> progress \<Rightarrow> 'b world
    \<Rightarrow> (result \<times> error option) \<times> 'b world" where
  "call_Install b name channel flags meter w =
     (case Install b name channel flags meter (bstate w) of
        (r, bs) \<Rightarrow> (r, w\<lparr>trace := trace w @ [CallInstall name channel flags meter], bstate := bs\<rparr>))"

definition call_Update ::
  "'b backendIF \<Rightarrow> string \<Rightarrow> string \<Rightarrow> InstallFlags \<Rightarrow> progress \<Rightarrow> 'b world
    \<Rightarrow> error option \<times> 'b world" where
  "call_Update b name channel flags meter w =
     (case Update b name channel flags meter (bstate w) of
        (r, bs) \<Rightarrow> (r, w\<lparr>trace := trace w @ [CallUpdate name channel flags meter], bstate := bs\<rparr>))"

definition call_Remove ::
  "'b backendIF \<Rightarrow> string \<Rightarrow> RemoveFlags \<Rightarrow> progress \<Rightarrow> 'b world \<Rightarrow> error option \<times> 'b world" where
  "call_Remove b name flags meter w =
     (case Remove b name flags meter (bstate w) of
        (r, bs) \<Rightarrow> (r, w\<lparr>trace := trace w @ [CallRemove name flags meter], bstate := bs\<rparr>))"

definition call_Purge ::
  "'b backendIF \<Rightarrow> string \<Rightarrow> PurgeFlags \<Rightarrow> progress \<Rightarrow> 'b world \<Rightarrow> error option \<times> 'b world" where
  "call_Purge b name flags meter w =
     (case Purge b name flags meter (bstate w) of
        (r, bs) \<Rightarrow> (r, w\<lparr>trace := trace w @ [CallPurge name flags meter], bstate := bs\<rparr>))"

definition call_Rollback ::
  "'b backendIF \<Rightarrow> string \<Rightarrow> string \<Rightarrow> progress \<Rightarrow> 'b world
    \<Rightarrow> (result \<times> error option) \<times> 'b world" where
  "call_Rollback b name ver meter w =
     (case Rollback b name ver meter (bstate w) of
        (r, bs) \<Rightarrow> (r, w\<lparr>trace := trace w @ [CallRollback name ver meter], bstate := bs\<rparr>))"

definition call_SetActive ::
  "'b backendIF \<Rightarrow> string \<Rightarrow> bool \<Rightarrow> progress \<Rightarrow> 'b world \<Rightarrow> error option \<times> 'b world" where
  "call_SetActive b name active meter w =
     (case SetActive b name active meter (bstate w) of
        (r, bs) \<Rightarrow> (r, w\<lparr>trace := trace w @ [CallSetActive name active meter], bstate := bs\<rparr>))"

subsection \<open>Splitting the developer off a name\<close>

text \<open>
  Modelled from the spec: \<open>snappy.SplitDeveloper\<close> is declared in package snappy, outside
  this file. The spec: a qualified name has the form \<open>base-name[.developer]\<close>; splitting
  separates the developer suffix from the base name; a name without a suffix is valid and
  is returned as it is; there is no error result. The suffix is what follows the last
  \<open>.\<close> of the name. The function returns the base name and the developer.
\<close>

definition SplitDeveloper :: "string \<Rightarrow> string \<times> string" where
  "SplitDeveloper name =
     (if CHR ''.'' \<in> set name
      then (rev (tl (dropWhile (\<lambda>c. c \<noteq> CHR ''.'') (rev name))),
            rev (takeWhile (\<lambda>c. c \<noteq> CHR ''.'') (rev name)))
      else (name, []))"

subsection \<open>The task runner\<close>

text \<open>A handler function, \<open>func(*state.Task, *tomb.Tomb) error\<close>, acting on the world.\<close>

type_synonym 'b HandlerFunc = "Task \<Rightarrow> Tomb \<Rightarrow> 'b world \<Rightarrow> error option \<times> 'b world"

text \<open>
  Modelled from the spec: \<open>state.TaskRunner\<close> is declared in package state, outside this
  file. The spec gives its contract: one handler function registered per kind name, and
  the operations \<open>Ensure\<close>, \<open>Wait\<close> and \<open>Stop\<close>. The runner is modelled by the state it is
  bound to, its handler table, and the log of the operations invoked on it; what the
  runner schedules in \<open>Ensure\<close>, \<open>Wait\<close> and \<open>Stop\<close> is not modelled.
\<close>

datatype runner_call = AddHandlerCall string | EnsureCall | WaitCall | StopCall

record 'b TaskRunner =
  runner_state :: State
  handlers :: "string \<rightharpoonup> 'b HandlerFunc"
  calls :: "runner_call list"

definition NewTaskRunner :: "State \<Rightarrow> 'b TaskRunner" where
  "NewTaskRunner s = \<lparr>runner_state = s, handlers = Map.empty, calls = []\<rparr>"

definition AddHandler :: "string \<Rightarrow> 'b HandlerFunc \<Rightarrow> 'b TaskRunner \<Rightarrow> 'b TaskRunner" where
  "AddHandler kind fn r =
     r\<lparr>handlers := (handlers r)(kind \<mapsto> fn), calls := calls r @ [AddHandlerCall kind]\<rparr>"

definition runner_Ensure :: "'b TaskRunner \<Rightarrow> 'b TaskRunner" where
  "runner_Ensure r = r\<lparr>calls := calls r @ [EnsureCall]\<rparr>"

definition runner_Wait :: "'b TaskRunner \<Rightarrow> 'b TaskRunner" where
  "runner_Wait r = r\<lparr>calls := calls r @ [WaitCall]\<rparr>"

definition runner_Stop :: "'b TaskRunner \<Rightarrow> 'b TaskRunner" where
  "runner_Stop r = r\<lparr>calls := calls r @ [StopCall]\<rparr>"

subsection \<open>The manager and its handlers\<close>

record 'b SnapManager =
  state :: State
  backend :: "'b backendIF"
  runner :: "'b TaskRunner"

text \<open>Each handler follows its source line by line. A failing \<open>Get\<close> returns at once,
  from inside the \<open>if\<close>, before the \<open>Unlock\<close> line is reached.\<close>

definition doInstallSnap :: "'b SnapManager \<Rightarrow> 'b HandlerFunc" where
  "doInstallSnap m t tb w0 =
     (let w1 = Lock (task_State t) w0 in
      case Get (Get_installState t) ''state'' w1 of
        (Inl err, w2) \<Rightarrow> (Some err, w2)
      | (Inr inst, w2) \<Rightarrow>
          (let w3 = Unlock (task_State t) w2 in
           case call_Install (backend m) (inst_Name inst) (inst_Channel inst) (inst_Flags inst)
                  NullProgress w3 of
             ((_, err), w4) \<Rightarrow> (err, w4)))"

definition doUpdateSnap :: "'b SnapManager \<Rightarrow> 'b HandlerFunc" where
  "doUpdateSnap m t tb w0 =
     (let w1 = Lock (task_State t) w0 in
      case Get (Get_installState t) ''state'' w1 of
        (Inl err, w2) \<Rightarrow> (Some err, w2)
      | (Inr inst, w2) \<Rightarrow>
          (let w3 = Unlock (task_State t) w2 in
           case call_Update (backend m) (inst_Name inst) (inst_Channel inst) (inst_Flags inst)
                  NullProgress w3 of
             (err, w4) \<Rightarrow> (err, w4)))"

definition doRemoveSnap :: "'b SnapManager \<Rightarrow> 'b HandlerFunc" where
  "doRemoveSnap m t tb w0 =
     (let w1 = Lock (task_State t) w0 in
      case Get (Get_removeState t) ''state'' w1 of
        (Inl err, w2) \<Rightarrow> (Some err, w2)
      | (Inr rm, w2) \<Rightarrow>
          (let w3 = Unlock (task_State t) w2 in
           case SplitDeveloper (rm_Name rm) of
             (name, _) \<Rightarrow>
               (case call_Remove (backend m) name (rm_Flags rm) NullProgress w3 of
                  (err, w4) \<Rightarrow> (err, w4))))"

definition doPurgeSnap :: "'b SnapManager \<Rightarrow> 'b HandlerFunc" where
  "doPurgeSnap m t tb w0 =
     (let w1 = Lock (task_State t) w0 in
      case Get (Get_purgeState t) ''state'' w1 of
        (Inl err, w2) \<Rightarrow> (Some err, w2)
      | (Inr purge, w2) \<Rightarrow>
          (let w3 = Unlock (task_State t) w2 in
           case SplitDeveloper (purge_Name purge) of
             (name, _) \<Rightarrow>
               (case call_Purge (backend m) name (purge_Flags purge) NullProgress w3 of
                  (err, w4) \<Rightarrow> (err, w4))))"

definition doRollbackSnap :: "'b SnapManager \<Rightarrow> 'b HandlerFunc" where
  "doRollbackSnap m t tb w0 =
     (let w1 = Lock (task_State t) w0 in
      case Get (Get_rollbackState t) ''state'' w1 of
        (Inl err, w2) \<Rightarrow> (Some err, w2)
      | (Inr rollback, w2) \<Rightarrow>
          (let w3 = Unlock (task_State t) w2 in
           case SplitDeveloper (rollback_Name rollback) of
             (name, _) \<Rightarrow>
               (case call_Rollback (backend m) name (rollback_Version rollback) NullProgress w3 of
                  ((_, err), w4) \<Rightarrow> (err, w4))))"

definition doSetActiveSnap :: "'b SnapManager \<Rightarrow> 'b HandlerFunc" where
  "doSetActiveSnap m t tb w0 =
     (let w1 = Lock (task_State t) w0 in
      case Get (Get_setActiveState t) ''state'' w1 of
        (Inl err, w2) \<Rightarrow> (Some err, w2)
      | (Inr setActive, w2) \<Rightarrow>
          (let w3 = Unlock (task_State t) w2 in
           case SplitDeveloper (setActive_Name setActive) of
             (name, _) \<Rightarrow>
               call_SetActive (backend m) name (setActive_Active setActive) NullProgress w3))"

text \<open>
  \<open>Manager\<close>. The backend \<open>&defaultBackend{}\<close> is declared elsewhere in the package and is
  a parameter here. The result is the pointer to the new manager (\<open>Some\<close>, never \<open>nil\<close>)
  and the error. In the source the handlers are method values bound to the pointer \<open>m\<close>;
  here they are bound to the manager as it is when they are registered. The handlers read
  only \<open>m.backend\<close>, which does not change afterwards (lemma \<open>handlers_depend_on_backend\<close>).
\<close>

definition Manager :: "'b backendIF \<Rightarrow> State \<Rightarrow> 'b SnapManager option \<times> error option" where
  "Manager defaultBackend s =
     (let runner0 = NewTaskRunner s;
          backend0 = defaultBackend;
          m = \<lparr>state = s, backend = backend0, runner = runner0\<rparr>;
          runner1 = AddHandler ''install-snap'' (doInstallSnap m) runner0;
          runner2 = AddHandler ''update-snap'' (doUpdateSnap m) runner1;
          runner3 = AddHandler ''remove-snap'' (doRemoveSnap m) runner2;
          runner4 = AddHandler ''purge-snap'' (doPurgeSnap m) runner3;
          runner5 = AddHandler ''rollback-snap'' (doRollbackSnap m) runner4;
          runner6 = AddHandler ''set-active-snap'' (doSetActiveSnap m) runner5;
          runner7 = AddHandler ''fake-install-snap'' (\<lambda>t _ w. (None, w)) runner6;
          runner8 = AddHandler ''fake-install-snap-error''
                      (\<lambda>t _ w. (Some (Errorf ''fake-install-snap-error errored''), w)) runner7
      in (Some (m\<lparr>runner := runner8\<rparr>), None))"

text \<open>The lifecycle methods; each returns the manager with its runner updated.\<close>

definition Ensure :: "'b SnapManager \<Rightarrow> error option \<times> 'b SnapManager" where
  "Ensure m = (let m' = m\<lparr>runner := runner_Ensure (runner m)\<rparr> in (None, m'))"

definition Wait :: "'b SnapManager \<Rightarrow> 'b SnapManager" where
  "Wait m = m\<lparr>runner := runner_Wait (runner m)\<rparr>"

definition Stop :: "'b SnapManager \<Rightarrow> 'b SnapManager" where
  "Stop m = m\<lparr>runner := runner_Stop (runner m)\<rparr>"

subsection \<open>Fixtures\<close>

text \<open>Concrete tasks, a backend and a world on which the theorems below are evaluated:
  a task whose payloads all name \<open>foo.bar\<close>, a task without a readable payload, a backend
  that counts its calls (its \<open>Remove\<close> knows only the snap \<open>foo\<close>, its \<open>Purge\<close> always
  fails), and a world in which no lock is held.\<close>

definition foo_task :: Task where
  "foo_task =
     \<lparr>task_State = 0,
      Get_installState = (\<lambda>key. if key = ''state''
         then Inr \<lparr>inst_Name = ''foo.bar'', inst_Channel = ''stable'', inst_Flags = 0\<rparr>
         else Inl (Errorf ''no state entry'')),
      Get_removeState = (\<lambda>key. if key = ''state''
         then Inr \<lparr>rm_Name = ''foo.bar'', rm_Flags = 0\<rparr>
         else Inl (Errorf ''no state entry'')),
      Get_purgeState = (\<lambda>key. if key = ''state''
         then Inr \<lparr>purge_Name = ''foo.bar'', purge_Flags = 1\<rparr>
         else Inl (Errorf ''no state entry'')),
      Get_rollbackState = (\<lambda>key. if key = ''state''
         then Inr \<lparr>rollback_Name = ''foo.bar'', rollback_Version = ''1.0''\<rparr>
         else Inl (Errorf ''no state entry'')),
      Get_setActiveState = (\<lambda>key. if key = ''state''
         then Inr \<lparr>setActive_Name = ''foo.bar'', setActive_Active = True\<rparr>
         else Inl (Errorf ''no state entry''))\<rparr>"

definition broken_task :: Task where
  "broken_task =
     \<lparr>task_State = 0,
      Get_installState = (\<lambda>key. Inl (Errorf ''no state entry'')),
      Get_removeState = (\<lambda>key. Inl (Errorf ''no state entry'')),
      Get_purgeState = (\<lambda>key. Inl (Errorf ''no state entry'')),
      Get_rollbackState = (\<lambda>key. Inl (Errorf ''no state entry'')),
      Get_setActiveState = (\<lambda>key. Inl (Errorf ''no state entry''))\<rparr>"

definition test_backend :: "nat backendIF" where
  "test_backend =
     \<lparr>Install = (\<lambda>name channel flags meter n. ((Result name, None), Suc n)),
      Update = (\<lambda>name channel flags meter n. (None, Suc n)),
      Remove = (\<lambda>name flags meter n.
         (if name = ''foo'' then None else Some (Errorf ''snap not found''), Suc n)),
      Purge = (\<lambda>name flags meter n. (Some (Errorf ''cannot purge''), Suc n)),
      Rollback = (\<lambda>name ver meter n. ((Result ver, None), Suc n)),
      SetActive = (\<lambda>name active meter n. (None, Suc n))\<rparr>"

definition test_manager :: "nat SnapManager" where
  "test_manager = \<lparr>state = 0, backend = test_backend, runner = NewTaskRunner 0\<rparr>"

definition idle_world :: "nat world" where
  "idle_world = \<lparr>locked = (\<lambda>s. False), trace = [], bstate = 0\<rparr>"

definition bare_task :: Task where
  "bare_task =
     \<lparr>task_State = 0,
      Get_installState = (\<lambda>key. Inl (Errorf ''no state entry'')),
      Get_removeState = (\<lambda>key. if key = ''state''
         then Inr \<lparr>rm_Name = ''foo'', rm_Flags = 0\<rparr>
         else Inl (Errorf ''no state entry'')),
      Get_purgeState = (\<lambda>key. if key = ''state''
         then Inr \<lparr>purge_Name = ''foo'', purge_Flags = 0\<rparr>
         else Inl (Errorf ''no state entry'')),
      Get_rollbackState = (\<lambda>key. if key = ''state''
         then Inr \<lparr>rollback_Name = ''foo'', rollback_Version = ''''\<rparr>
         else Inl (Errorf ''no state entry'')),
      Get_setActiveState = (\<lambda>key. if key = ''state''
         then Inr \<lparr>setActive_Name = ''foo'', setActive_Active = False\<rparr>
         else Inl (Errorf ''no state entry''))\<rparr>"

section \<open>What one handler run does\<close>

text \<open>Each handler has two runs: \<open>Get\<close> fails, or \<open>Get\<close> fills the struct. The lemmas
  below give the returned error and the final world of both runs in closed form.\<close>

lemmas store_defs = Lock_def Unlock_def Get_def
lemmas call_defs = call_Install_def call_Update_def call_Remove_def call_Purge_def
  call_Rollback_def call_SetActive_def
lemma added_append [simp]: "trace w' = trace w @ es \<Longrightarrow> added w w' = es"
  by (simp add: added_def)

lemma doInstallSnap_fail:
  "Get_installState t ''state'' = Inl e \<Longrightarrow>
   doInstallSnap m t tb w =
     (Some e, w\<lparr>locked := (locked w)(task_State t := True),
                trace := trace w @ [EvLock (task_State t), EvGet ''state'']\<rparr>)"
  by (simp add: doInstallSnap_def store_defs)

lemma doUpdateSnap_fail:
  "Get_installState t ''state'' = Inl e \<Longrightarrow>
   doUpdateSnap m t tb w =
     (Some e, w\<lparr>locked := (locked w)(task_State t := True),
                trace := trace w @ [EvLock (task_State t), EvGet ''state'']\<rparr>)"
  by (simp add: doUpdateSnap_def store_defs)

lemma doRemoveSnap_fail:
  "Get_removeState t ''state'' = Inl e \<Longrightarrow>
   doRemoveSnap m t tb w =
     (Some e, w\<lparr>locked := (locked w)(task_State t := True),
                trace := trace w @ [EvLock (task_State t), EvGet ''state'']\<rparr>)"
  by (simp add: doRemoveSnap_def store_defs)

lemma doPurgeSnap_fail:
  "Get_purgeState t ''state'' = Inl e \<Longrightarrow>
   doPurgeSnap m t tb w =
     (Some e, w\<lparr>locked := (locked w)(task_State t := True),
                trace := trace w @ [EvLock (task_State t), EvGet ''state'']\<rparr>)"
  by (simp add: doPurgeSnap_def store_defs)

lemma doRollbackSnap_fail:
  "Get_rollbackState t ''state'' = Inl e \<Longrightarrow>
   doRollbackSnap m t tb w =
     (Some e, w\<lparr>locked := (locked w)(task_State t := True),
                trace := trace w @ [EvLock (task_State t), EvGet ''state'']\<rparr>)"
  by (simp add: doRollbackSnap_def store_defs)

lemma doSetActiveSnap_fail:
  "Get_setActiveState t ''state'' = Inl e \<Longrightarrow>
   doSetActiveSnap m t tb w =
     (Some e, w\<lparr>locked := (locked w)(task_State t := True),
                trace := trace w @ [EvLock (task_State t), EvGet ''state'']\<rparr>)"
  by (simp add: doSetActiveSnap_def store_defs)

lemma doInstallSnap_ok:
  "Get_installState t ''state'' = Inr inst \<Longrightarrow>
   doInstallSnap m t tb w =
     (snd (fst (Install (backend m) (inst_Name inst) (inst_Channel inst) (inst_Flags inst)
                  NullProgress (bstate w))),
      w\<lparr>locked := (locked w)(task_State t := False),
        trace := trace w @
          [EvLock (task_State t), EvGet ''state'', EvUnlock (task_State t),
           CallInstall (inst_Name inst) (inst_Channel inst) (inst_Flags inst) NullProgress],
        bstate := snd (Install (backend m) (inst_Name inst) (inst_Channel inst) (inst_Flags inst)
                         NullProgress (bstate w))\<rparr>)"
  by (simp add: doInstallSnap_def store_defs call_defs split: prod.splits)

lemma doUpdateSnap_ok:
  "Get_installState t ''state'' = Inr inst \<Longrightarrow>
   doUpdateSnap m t tb w =
     (fst (Update (backend m) (inst_Name inst) (inst_Channel inst) (inst_Flags inst)
             NullProgress (bstate w)),
      w\<lparr>locked := (locked w)(task_State t := False),
        trace := trace w @
          [EvLock (task_State t), EvGet ''state'', EvUnlock (task_State t),
           CallUpdate (inst_Name inst) (inst_Channel inst) (inst_Flags inst) NullProgress],
        bstate := snd (Update (backend m) (inst_Name inst) (inst_Channel inst) (inst_Flags inst)
                         NullProgress (bstate w))\<rparr>)"
  by (simp add: doUpdateSnap_def store_defs call_defs split: prod.splits)

lemma doRemoveSnap_ok:
  "Get_removeState t ''state'' = Inr rm \<Longrightarrow>
   doRemoveSnap m t tb w =
     (fst (Remove (backend m) (fst (SplitDeveloper (rm_Name rm))) (rm_Flags rm)
             NullProgress (bstate w)),
      w\<lparr>locked := (locked w)(task_State t := False),
        trace := trace w @
          [EvLock (task_State t), EvGet ''state'', EvUnlock (task_State t),
           CallRemove (fst (SplitDeveloper (rm_Name rm))) (rm_Flags rm) NullProgress],
        bstate := snd (Remove (backend m) (fst (SplitDeveloper (rm_Name rm))) (rm_Flags rm)
                         NullProgress (bstate w))\<rparr>)"
  by (cases "SplitDeveloper (rm_Name rm)")
     (simp add: doRemoveSnap_def store_defs call_defs split: prod.splits)

lemma doPurgeSnap_ok:
  "Get_purgeState t ''state'' = Inr purge \<Longrightarrow>
   doPurgeSnap m t tb w =
     (fst (Purge (backend m) (fst (SplitDeveloper (purge_Name purge))) (purge_Flags purge)
             NullProgress (bstate w)),
      w\<lparr>locked := (locked w)(task_State t := False),
        trace := trace w @
          [EvLock (task_State t), EvGet ''state'', EvUnlock (task_State t),
           CallPurge (fst (SplitDeveloper (purge_Name purge))) (purge_Flags purge) NullProgress],
        bstate := snd (Purge (backend m) (fst (SplitDeveloper (purge_Name purge)))
                         (purge_Flags purge) NullProgress (bstate w))\<rparr>)"
  by (cases "SplitDeveloper (purge_Name purge)")
     (simp add: doPurgeSnap_def store_defs call_defs split: prod.splits)

lemma doRollbackSnap_ok:
  "Get_rollbackState t ''state'' = Inr rollback \<Longrightarrow>
   doRollbackSnap m t tb w =
     (snd (fst (Rollback (backend m) (fst (SplitDeveloper (rollback_Name rollback)))
                  (rollback_Version rollback) NullProgress (bstate w))),
      w\<lparr>locked := (locked w)(task_State t := False),
        trace := trace w @
          [EvLock (task_State t), EvGet ''state'', EvUnlock (task_State t),
           CallRollback (fst (SplitDeveloper (rollback_Name rollback)))
             (rollback_Version rollback) NullProgress],
        bstate := snd (Rollback (backend m) (fst (SplitDeveloper (rollback_Name rollback)))
                         (rollback_Version rollback) NullProgress (bstate w))\<rparr>)"
  by (cases "SplitDeveloper (rollback_Name rollback)")
     (simp add: doRollbackSnap_def store_defs call_defs split: prod.splits)

lemma doSetActiveSnap_ok:
  "Get_setActiveState t ''state'' = Inr setActive \<Longrightarrow>
   doSetActiveSnap m t tb w =
     (fst (SetActive (backend m) (fst (SplitDeveloper (setActive_Name setActive)))
             (setActive_Active setActive) NullProgress (bstate w)),
      w\<lparr>locked := (locked w)(task_State t := False),
        trace := trace w @
          [EvLock (task_State t), EvGet ''state'', EvUnlock (task_State t),
           CallSetActive (fst (SplitDeveloper (setActive_Name setActive)))
             (setActive_Active setActive) NullProgress],
        bstate := snd (SetActive (backend m) (fst (SplitDeveloper (setActive_Name setActive)))
                         (setActive_Active setActive) NullProgress (bstate w))\<rparr>)"
  by (cases "SplitDeveloper (setActive_Name setActive)")
     (simp add: doSetActiveSnap_def store_defs call_defs split: prod.splits)

lemmas fail_simps = doInstallSnap_fail doUpdateSnap_fail doRemoveSnap_fail doPurgeSnap_fail
  doRollbackSnap_fail doSetActiveSnap_fail
lemmas ok_simps = doInstallSnap_ok doUpdateSnap_ok doRemoveSnap_ok doPurgeSnap_ok
  doRollbackSnap_ok doSetActiveSnap_ok

text \<open>In both runs the only event between taking the lock and either releasing it or
  returning is the \<open>Get\<close>.\<close>

lemma doInstallSnap_under_lock:
  "under_lock (task_State t) False (added w (snd (doInstallSnap m t tb w))) = [EvGet ''state'']"
  by (cases "Get_installState t ''state''") (simp_all add: fail_simps ok_simps)

lemma doUpdateSnap_under_lock:
  "under_lock (task_State t) False (added w (snd (doUpdateSnap m t tb w))) = [EvGet ''state'']"
  by (cases "Get_installState t ''state''") (simp_all add: fail_simps ok_simps)

lemma doRemoveSnap_under_lock:
  "under_lock (task_State t) False (added w (snd (doRemoveSnap m t tb w))) = [EvGet ''state'']"
  by (cases "Get_removeState t ''state''") (simp_all add: fail_simps ok_simps)

lemma doPurgeSnap_under_lock:
  "under_lock (task_State t) False (added w (snd (doPurgeSnap m t tb w))) = [EvGet ''state'']"
  by (cases "Get_purgeState t ''state''") (simp_all add: fail_simps ok_simps)

lemma doRollbackSnap_under_lock:
  "under_lock (task_State t) False (added w (snd (doRollbackSnap m t tb w))) = [EvGet ''state'']"
  by (cases "Get_rollbackState t ''state''") (simp_all add: fail_simps ok_simps)

lemma doSetActiveSnap_under_lock:
  "under_lock (task_State t) False (added w (snd (doSetActiveSnap m t tb w))) = [EvGet ''state'']"
  by (cases "Get_setActiveState t ''state''") (simp_all add: fail_simps ok_simps)

lemmas under_lock_simps = doInstallSnap_under_lock doUpdateSnap_under_lock
  doRemoveSnap_under_lock doPurgeSnap_under_lock doRollbackSnap_under_lock
  doSetActiveSnap_under_lock

text \<open>\<open>SplitDeveloper\<close> cuts a name at its last \<open>.\<close>.\<close>

lemma SplitDeveloper_suffix:
  "CHR ''.'' \<notin> set dev \<Longrightarrow> SplitDeveloper (base @ ''.'' @ dev) = (base, dev)"
proof -
  assume nodot: "CHR ''.'' \<notin> set dev"
  have r: "rev (base @ ''.'' @ dev) = rev dev @ CHR ''.'' # rev base" by simp
  have tw: "takeWhile (\<lambda>c. c \<noteq> CHR ''.'') (rev dev @ CHR ''.'' # rev base) = rev dev"
    using nodot by (subst takeWhile_append2) auto
  have dw: "dropWhile (\<lambda>c. c \<noteq> CHR ''.'') (rev dev @ CHR ''.'' # rev base) = CHR ''.'' # rev base"
    using nodot by (subst dropWhile_append2) auto
  show ?thesis unfolding SplitDeveloper_def r tw dw by simp
qed

lemma SplitDeveloper_foo_bar: "SplitDeveloper ''foo.bar'' = (''foo'', ''bar'')"
  by (simp add: SplitDeveloper_def)

lemma SplitDeveloper_no_dot: "CHR ''.'' \<notin> set name \<Longrightarrow> SplitDeveloper name = (name, [])"
  by (simp add: SplitDeveloper_def)

text \<open>In both runs the store's data is accessed once, by the \<open>Get\<close> of key \<open>state\<close>.\<close>

lemma doInstallSnap_data_access:
  "filter is_data_access (added w (snd (doInstallSnap m t tb w))) = [EvGet ''state'']"
  by (cases "Get_installState t ''state''") (simp_all add: fail_simps ok_simps)

lemma doUpdateSnap_data_access:
  "filter is_data_access (added w (snd (doUpdateSnap m t tb w))) = [EvGet ''state'']"
  by (cases "Get_installState t ''state''") (simp_all add: fail_simps ok_simps)

lemma doRemoveSnap_data_access:
  "filter is_data_access (added w (snd (doRemoveSnap m t tb w))) = [EvGet ''state'']"
  by (cases "Get_removeState t ''state''") (simp_all add: fail_simps ok_simps)

lemma doPurgeSnap_data_access:
  "filter is_data_access (added w (snd (doPurgeSnap m t tb w))) = [EvGet ''state'']"
  by (cases "Get_purgeState t ''state''") (simp_all add: fail_simps ok_simps)

lemma doRollbackSnap_data_access:
  "filter is_data_access (added w (snd (doRollbackSnap m t tb w))) = [EvGet ''state'']"
  by (cases "Get_rollbackState t ''state''") (simp_all add: fail_simps ok_simps)

lemma doSetActiveSnap_data_access:
  "filter is_data_access (added w (snd (doSetActiveSnap m t tb w))) = [EvGet ''state'']"
  by (cases "Get_setActiveState t ''state''") (simp_all add: fail_simps ok_simps)

text \<open>The handlers read the manager's backend and nothing else of the manager.\<close>

lemma handlers_depend_on_backend:
  "backend m = backend m' \<Longrightarrow> doInstallSnap m = doInstallSnap m'"
  "backend m = backend m' \<Longrightarrow> doUpdateSnap m = doUpdateSnap m'"
  "backend m = backend m' \<Longrightarrow> doRemoveSnap m = doRemoveSnap m'"
  "backend m = backend m' \<Longrightarrow> doPurgeSnap m = doPurgeSnap m'"
  "backend m = backend m' \<Longrightarrow> doRollbackSnap m = doRollbackSnap m'"
  "backend m = backend m' \<Longrightarrow> doSetActiveSnap m = doSetActiveSnap m'"
  by (simp_all add: fun_eq_iff doInstallSnap_def doUpdateSnap_def doRemoveSnap_def
      doPurgeSnap_def doRollbackSnap_def doSetActiveSnap_def Let_def
      split: prod.splits sum.splits)

text \<open>The manager that \<open>Manager\<close> returns, written out.\<close>

lemma Manager_unfold:
  "Manager b s =
     (Some \<lparr>state = s, backend = b,
            runner = \<lparr>runner_state = s,
              handlers = [''install-snap'' \<mapsto> doInstallSnap \<lparr>state = s, backend = b, runner = NewTaskRunner s\<rparr>,
                          ''update-snap'' \<mapsto> doUpdateSnap \<lparr>state = s, backend = b, runner = NewTaskRunner s\<rparr>,
                          ''remove-snap'' \<mapsto> doRemoveSnap \<lparr>state = s, backend = b, runner = NewTaskRunner s\<rparr>,
                          ''purge-snap'' \<mapsto> doPurgeSnap \<lparr>state = s, backend = b, runner = NewTaskRunner s\<rparr>,
                          ''rollback-snap'' \<mapsto> doRollbackSnap \<lparr>state = s, backend = b, runner = NewTaskRunner s\<rparr>,
                          ''set-active-snap'' \<mapsto> doSetActiveSnap \<lparr>state = s, backend = b, runner = NewTaskRunner s\<rparr>,
                          ''fake-install-snap'' \<mapsto> (\<lambda>t _ w. (None, w)),
                          ''fake-install-snap-error'' \<mapsto>
                             (\<lambda>t _ w. (Some (Errorf ''fake-install-snap-error errored''), w))],
              calls = [AddHandlerCall ''install-snap'', AddHandlerCall ''update-snap'',
                       AddHandlerCall ''remove-snap'', AddHandlerCall ''purge-snap'',
                       AddHandlerCall ''rollback-snap'', AddHandlerCall ''set-active-snap'',
                       AddHandlerCall ''fake-install-snap'',
                       AddHandlerCall ''fake-install-snap-error'']\<rparr>\<rparr>,
      None)"
  by (simp add: Manager_def Let_def AddHandler_def NewTaskRunner_def)

text \<open>What holds of the lock in every run: the only event under the lock is the \<open>Get\<close>,
  so no backend call is made under it. When the payload is decoded, the events of the run
  are \<open>Lock\<close>, \<open>Get\<close>, \<open>Unlock\<close> and then one backend call, and the lock is free when
  the handler returns.\<close>

lemma decoded_run_unlocks_before_backend_call:
  "under_lock (task_State t) False (added w (snd (doInstallSnap m t tb w))) = [EvGet ''state''] \<and>
   under_lock (task_State t) False (added w (snd (doUpdateSnap m t tb w))) = [EvGet ''state''] \<and>
   under_lock (task_State t) False (added w (snd (doRemoveSnap m t tb w))) = [EvGet ''state''] \<and>
   under_lock (task_State t) False (added w (snd (doPurgeSnap m t tb w))) = [EvGet ''state''] \<and>
   under_lock (task_State t) False (added w (snd (doRollbackSnap m t tb w))) = [EvGet ''state''] \<and>
   under_lock (task_State t) False (added w (snd (doSetActiveSnap m t tb w))) = [EvGet ''state''] \<and>
   (Get_installState t ''state'' = Inr inst \<longrightarrow>
      (\<exists>c. is_backend_call c \<and> added w (snd (doInstallSnap m t tb w)) =
         [EvLock (task_State t), EvGet ''state'', EvUnlock (task_State t), c]) \<and>
      \<not> locked (snd (doInstallSnap m t tb w)) (task_State t)) \<and>
   (Get_installState t ''state'' = Inr inst \<longrightarrow>
      (\<exists>c. is_backend_call c \<and> added w (snd (doUpdateSnap m t tb w)) =
         [EvLock (task_State t), EvGet ''state'', EvUnlock (task_State t), c]) \<and>
      \<not> locked (snd (doUpdateSnap m t tb w)) (task_State t)) \<and>
   (Get_removeState t ''state'' = Inr rm \<longrightarrow>
      (\<exists>c. is_backend_call c \<and> added w (snd (doRemoveSnap m t tb w)) =
         [EvLock (task_State t), EvGet ''state'', EvUnlock (task_State t), c]) \<and>
      \<not> locked (snd (doRemoveSnap m t tb w)) (task_State t)) \<and>
   (Get_purgeState t ''state'' = Inr purge \<longrightarrow>
      (\<exists>c. is_backend_call c \<and> added w (snd (doPurgeSnap m t tb w)) =
         [EvLock (task_State t), EvGet ''state'', EvUnlock (task_State t), c]) \<and>
      \<not> locked (snd (doPurgeSnap m t tb w)) (task_State t)) \<and>
   (Get_rollbackState t ''state'' = Inr rollback \<longrightarrow>
      (\<exists>c. is_backend_call c \<and> added w (snd (doRollbackSnap m t tb w)) =
         [EvLock (task_State t), EvGet ''state'', EvUnlock (task_State t), c]) \<and>
      \<not> locked (snd (doRollbackSnap m t tb w)) (task_State t)) \<and>
   (Get_setActiveState t ''state'' = Inr setActive \<longrightarrow>
      (\<exists>c. is_backend_call c \<and> added w (snd (doSetActiveSnap m t tb w)) =
         [EvLock (task_State t), EvGet ''state'', EvUnlock (task_State t), c]) \<and>
      \<not> locked (snd (doSetActiveSnap m t tb w)) (task_State t))"
  by (simp add: under_lock_simps ok_simps)

section \<open>Claims\<close>

text \<open>
  C1. When the payload is decoded, every handler calls the backend method of its kind
  with the fields of the payload as they are; \<open>doRemoveSnap\<close>, \<open>doPurgeSnap\<close>,
  \<open>doRollbackSnap\<close> and \<open>doSetActiveSnap\<close> pass the first component of
  \<open>SplitDeveloper\<close> of the name, \<open>doInstallSnap\<close> and \<open>doUpdateSnap\<close> pass the name
  unsplit. The backend calls a run adds to the trace are exactly that one call.
\<close>

theorem handlers_pass_payload_fields:
  "(Get_installState t ''state'' = Inr inst \<longrightarrow>
      filter is_backend_call (added w (snd (doInstallSnap m t tb w))) =
        [CallInstall (inst_Name inst) (inst_Channel inst) (inst_Flags inst) NullProgress]) \<and>
   (Get_installState t ''state'' = Inr inst \<longrightarrow>
      filter is_backend_call (added w (snd (doUpdateSnap m t tb w))) =
        [CallUpdate (inst_Name inst) (inst_Channel inst) (inst_Flags inst) NullProgress]) \<and>
   (Get_removeState t ''state'' = Inr rm \<longrightarrow>
      filter is_backend_call (added w (snd (doRemoveSnap m t tb w))) =
        [CallRemove (fst (SplitDeveloper (rm_Name rm))) (rm_Flags rm) NullProgress]) \<and>
   (Get_purgeState t ''state'' = Inr purge \<longrightarrow>
      filter is_backend_call (added w (snd (doPurgeSnap m t tb w))) =
        [CallPurge (fst (SplitDeveloper (purge_Name purge))) (purge_Flags purge) NullProgress]) \<and>
   (Get_rollbackState t ''state'' = Inr rollback \<longrightarrow>
      filter is_backend_call (added w (snd (doRollbackSnap m t tb w))) =
        [CallRollback (fst (SplitDeveloper (rollback_Name rollback)))
           (rollback_Version rollback) NullProgress]) \<and>
   (Get_setActiveState t ''state'' = Inr setActive \<longrightarrow>
      filter is_backend_call (added w (snd (doSetActiveSnap m t tb w))) =
        [CallSetActive (fst (SplitDeveloper (setActive_Name setActive)))
           (setActive_Active setActive) NullProgress])"
  by (simp add: doInstallSnap_ok doUpdateSnap_ok doRemoveSnap_ok doPurgeSnap_ok
      doRollbackSnap_ok doSetActiveSnap_ok)

text \<open>The scenarios of the spec: the payload name \<open>foo.bar\<close> reaches \<open>Install\<close> and
  \<open>Update\<close> as \<open>foo.bar\<close>, and the four other methods as \<open>foo\<close>.\<close>

theorem handlers_pass_payload_fields_witness:
  "Get_installState foo_task ''state'' =
     Inr \<lparr>inst_Name = ''foo.bar'', inst_Channel = ''stable'', inst_Flags = 0\<rparr> \<and>
   Get_removeState foo_task ''state'' = Inr \<lparr>rm_Name = ''foo.bar'', rm_Flags = 0\<rparr> \<and>
   Get_purgeState foo_task ''state'' = Inr \<lparr>purge_Name = ''foo.bar'', purge_Flags = 1\<rparr> \<and>
   Get_rollbackState foo_task ''state'' =
     Inr \<lparr>rollback_Name = ''foo.bar'', rollback_Version = ''1.0''\<rparr> \<and>
   Get_setActiveState foo_task ''state'' =
     Inr \<lparr>setActive_Name = ''foo.bar'', setActive_Active = True\<rparr> \<and>
   filter is_backend_call
     (added idle_world (snd (doInstallSnap test_manager foo_task (Tomb False) idle_world))) =
     [CallInstall ''foo.bar'' ''stable'' 0 NullProgress] \<and>
   filter is_backend_call
     (added idle_world (snd (doUpdateSnap test_manager foo_task (Tomb False) idle_world))) =
     [CallUpdate ''foo.bar'' ''stable'' 0 NullProgress] \<and>
   filter is_backend_call
     (added idle_world (snd (doRemoveSnap test_manager foo_task (Tomb False) idle_world))) =
     [CallRemove ''foo'' 0 NullProgress] \<and>
   filter is_backend_call
     (added idle_world (snd (doPurgeSnap test_manager foo_task (Tomb False) idle_world))) =
     [CallPurge ''foo'' 1 NullProgress] \<and>
   filter is_backend_call
     (added idle_world (snd (doRollbackSnap test_manager foo_task (Tomb False) idle_world))) =
     [CallRollback ''foo'' ''1.0'' NullProgress] \<and>
   filter is_backend_call
     (added idle_world (snd (doSetActiveSnap test_manager foo_task (Tomb False) idle_world))) =
     [CallSetActive ''foo'' True NullProgress]"
  using handlers_pass_payload_fields [where t = foo_task and m = test_manager and w = idle_world
      and tb = "Tomb False"
      and inst = "\<lparr>inst_Name = ''foo.bar'', inst_Channel = ''stable'', inst_Flags = 0\<rparr>"
      and rm = "\<lparr>rm_Name = ''foo.bar'', rm_Flags = 0\<rparr>"
      and purge = "\<lparr>purge_Name = ''foo.bar'', purge_Flags = 1\<rparr>"
      and rollback = "\<lparr>rollback_Name = ''foo.bar'', rollback_Version = ''1.0''\<rparr>"
      and setActive = "\<lparr>setActive_Name = ''foo.bar'', setActive_Active = True\<rparr>"]
  by (simp add: foo_task_def SplitDeveloper_foo_bar)

text \<open>
  C2. The claim: when deserializing the payload fails, the handler returns the decoding
  error at once, and the lock of the state is released before the handler returns. The
  first half holds. The second does not: the \<open>return err\<close> sits between \<open>Lock\<close> and
  \<open>Unlock\<close>, so the handler returns with the lock still held. The theorem runs the six
  handlers on a task without a readable payload, in a world where no lock is held: each
  returns the error of \<open>Get\<close>, its trace is \<open>Lock\<close>, \<open>Get\<close> with no \<open>Unlock\<close>, and the
  lock of the task's state is held in the final world. The lemmas \<open>fail_simps\<close> show the
  same for every task whose \<open>Get\<close> fails.
\<close>

theorem failed_get_returns_with_lock_held:
  "doInstallSnap test_manager broken_task (Tomb False) idle_world =
     (Some (Errorf ''no state entry''),
      \<lparr>locked = (\<lambda>s. s = 0), trace = [EvLock 0, EvGet ''state''], bstate = 0\<rparr>) \<and>
   doUpdateSnap test_manager broken_task (Tomb False) idle_world =
     (Some (Errorf ''no state entry''),
      \<lparr>locked = (\<lambda>s. s = 0), trace = [EvLock 0, EvGet ''state''], bstate = 0\<rparr>) \<and>
   doRemoveSnap test_manager broken_task (Tomb False) idle_world =
     (Some (Errorf ''no state entry''),
      \<lparr>locked = (\<lambda>s. s = 0), trace = [EvLock 0, EvGet ''state''], bstate = 0\<rparr>) \<and>
   doPurgeSnap test_manager broken_task (Tomb False) idle_world =
     (Some (Errorf ''no state entry''),
      \<lparr>locked = (\<lambda>s. s = 0), trace = [EvLock 0, EvGet ''state''], bstate = 0\<rparr>) \<and>
   doRollbackSnap test_manager broken_task (Tomb False) idle_world =
     (Some (Errorf ''no state entry''),
      \<lparr>locked = (\<lambda>s. s = 0), trace = [EvLock 0, EvGet ''state''], bstate = 0\<rparr>) \<and>
   doSetActiveSnap test_manager broken_task (Tomb False) idle_world =
     (Some (Errorf ''no state entry''),
      \<lparr>locked = (\<lambda>s. s = 0), trace = [EvLock 0, EvGet ''state''], bstate = 0\<rparr>) \<and>
   locked (snd (doInstallSnap test_manager broken_task (Tomb False) idle_world))
     (task_State broken_task)"
  by (auto simp add: fail_simps broken_task_def idle_world_def fun_eq_iff)

text \<open>
  C3. The claim: in every run of the six handlers the lock of the state is held only
  across the \<open>Get\<close> of the payload and never during the backend call. For the runs that
  decode the payload this holds (lemma \<open>decoded_run_unlocks_before_backend_call\<close>). It
  fails for the runs in which \<open>Get\<close> fails: the \<open>return err\<close> comes before the \<open>Unlock\<close>
  line, so the lock taken for the \<open>Get\<close> is still held after the \<open>Get\<close> is over and after
  the handler has returned. This is the defect of C2. The theorem runs the six handlers
  on a task without a readable payload, from a world in which the lock is free: the
  events of each run are \<open>Lock\<close> and \<open>Get\<close>, none is an \<open>Unlock\<close>, and the lock is held in
  the world the handler returns.
\<close>

theorem failed_get_lock_outlives_get:
  "\<not> locked idle_world (task_State broken_task) \<and>
   added idle_world (snd (doInstallSnap test_manager broken_task (Tomb False) idle_world)) =
     [EvLock (task_State broken_task), EvGet ''state''] \<and>
   locked (snd (doInstallSnap test_manager broken_task (Tomb False) idle_world))
     (task_State broken_task) \<and>
   added idle_world (snd (doUpdateSnap test_manager broken_task (Tomb False) idle_world)) =
     [EvLock (task_State broken_task), EvGet ''state''] \<and>
   locked (snd (doUpdateSnap test_manager broken_task (Tomb False) idle_world))
     (task_State broken_task) \<and>
   added idle_world (snd (doRemoveSnap test_manager broken_task (Tomb False) idle_world)) =
     [EvLock (task_State broken_task), EvGet ''state''] \<and>
   locked (snd (doRemoveSnap test_manager broken_task (Tomb False) idle_world))
     (task_State broken_task) \<and>
   added idle_world (snd (doPurgeSnap test_manager broken_task (Tomb False) idle_world)) =
     [EvLock (task_State broken_task), EvGet ''state''] \<and>
   locked (snd (doPurgeSnap test_manager broken_task (Tomb False) idle_world))
     (task_State broken_task) \<and>
   added idle_world (snd (doRollbackSnap test_manager broken_task (Tomb False) idle_world)) =
     [EvLock (task_State broken_task), EvGet ''state''] \<and>
   locked (snd (doRollbackSnap test_manager broken_task (Tomb False) idle_world))
     (task_State broken_task) \<and>
   added idle_world (snd (doSetActiveSnap test_manager broken_task (Tomb False) idle_world)) =
     [EvLock (task_State broken_task), EvGet ''state''] \<and>
   locked (snd (doSetActiveSnap test_manager broken_task (Tomb False) idle_world))
     (task_State broken_task)"
  by (simp add: fail_simps broken_task_def idle_world_def)

text \<open>
  C4. When \<open>Get\<close> fails with error \<open>e\<close>, each of the six handlers returns exactly \<open>e\<close>,
  adds no backend call to the trace and leaves the state of the backend as it was.
\<close>

theorem get_error_returned_unchanged:
  "(Get_installState t ''state'' = Inl e \<longrightarrow>
      fst (doInstallSnap m t tb w) = Some e \<and>
      filter is_backend_call (added w (snd (doInstallSnap m t tb w))) = [] \<and>
      bstate (snd (doInstallSnap m t tb w)) = bstate w) \<and>
   (Get_installState t ''state'' = Inl e \<longrightarrow>
      fst (doUpdateSnap m t tb w) = Some e \<and>
      filter is_backend_call (added w (snd (doUpdateSnap m t tb w))) = [] \<and>
      bstate (snd (doUpdateSnap m t tb w)) = bstate w) \<and>
   (Get_removeState t ''state'' = Inl e \<longrightarrow>
      fst (doRemoveSnap m t tb w) = Some e \<and>
      filter is_backend_call (added w (snd (doRemoveSnap m t tb w))) = [] \<and>
      bstate (snd (doRemoveSnap m t tb w)) = bstate w) \<and>
   (Get_purgeState t ''state'' = Inl e \<longrightarrow>
      fst (doPurgeSnap m t tb w) = Some e \<and>
      filter is_backend_call (added w (snd (doPurgeSnap m t tb w))) = [] \<and>
      bstate (snd (doPurgeSnap m t tb w)) = bstate w) \<and>
   (Get_rollbackState t ''state'' = Inl e \<longrightarrow>
      fst (doRollbackSnap m t tb w) = Some e \<and>
      filter is_backend_call (added w (snd (doRollbackSnap m t tb w))) = [] \<and>
      bstate (snd (doRollbackSnap m t tb w)) = bstate w) \<and>
   (Get_setActiveState t ''state'' = Inl e \<longrightarrow>
      fst (doSetActiveSnap m t tb w) = Some e \<and>
      filter is_backend_call (added w (snd (doSetActiveSnap m t tb w))) = [] \<and>
      bstate (snd (doSetActiveSnap m t tb w)) = bstate w)"
  by (simp add: fail_simps)

theorem get_error_returned_unchanged_witness:
  "Get_installState broken_task ''state'' = Inl (Errorf ''no state entry'') \<and>
   Get_removeState broken_task ''state'' = Inl (Errorf ''no state entry'') \<and>
   Get_purgeState broken_task ''state'' = Inl (Errorf ''no state entry'') \<and>
   Get_rollbackState broken_task ''state'' = Inl (Errorf ''no state entry'') \<and>
   Get_setActiveState broken_task ''state'' = Inl (Errorf ''no state entry'') \<and>
   fst (doInstallSnap test_manager broken_task (Tomb False) idle_world) =
     Some (Errorf ''no state entry'') \<and>
   fst (doUpdateSnap test_manager broken_task (Tomb False) idle_world) =
     Some (Errorf ''no state entry'') \<and>
   fst (doRemoveSnap test_manager broken_task (Tomb False) idle_world) =
     Some (Errorf ''no state entry'') \<and>
   fst (doPurgeSnap test_manager broken_task (Tomb False) idle_world) =
     Some (Errorf ''no state entry'') \<and>
   fst (doRollbackSnap test_manager broken_task (Tomb False) idle_world) =
     Some (Errorf ''no state entry'') \<and>
   fst (doSetActiveSnap test_manager broken_task (Tomb False) idle_world) =
     Some (Errorf ''no state entry'') \<and>
   filter is_backend_call
     (added idle_world (snd (doInstallSnap test_manager broken_task (Tomb False) idle_world))) = [] \<and>
   bstate (snd (doRemoveSnap test_manager broken_task (Tomb False) idle_world)) = 0"
  using get_error_returned_unchanged [where t = broken_task and m = test_manager
      and w = idle_world and tb = "Tomb False" and e = "Errorf ''no state entry''"]
  by (simp add: broken_task_def idle_world_def)

text \<open>
  C5. When the payload is decoded, each of the six handlers makes exactly one backend
  call, and the error it returns is the error of that call, \<open>nil\<close> or not, as it is.
\<close>

theorem backend_error_returned_unchanged:
  "(Get_installState t ''state'' = Inr inst \<longrightarrow>
      length (filter is_backend_call (added w (snd (doInstallSnap m t tb w)))) = 1 \<and>
      fst (doInstallSnap m t tb w) =
        snd (fst (Install (backend m) (inst_Name inst) (inst_Channel inst) (inst_Flags inst)
                    NullProgress (bstate w)))) \<and>
   (Get_installState t ''state'' = Inr inst \<longrightarrow>
      length (filter is_backend_call (added w (snd (doUpdateSnap m t tb w)))) = 1 \<and>
      fst (doUpdateSnap m t tb w) =
        fst (Update (backend m) (inst_Name inst) (inst_Channel inst) (inst_Flags inst)
               NullProgress (bstate w))) \<and>
   (Get_removeState t ''state'' = Inr rm \<longrightarrow>
      length (filter is_backend_call (added w (snd (doRemoveSnap m t tb w)))) = 1 \<and>
      fst (doRemoveSnap m t tb w) =
        fst (Remove (backend m) (fst (SplitDeveloper (rm_Name rm))) (rm_Flags rm)
               NullProgress (bstate w))) \<and>
   (Get_purgeState t ''state'' = Inr purge \<longrightarrow>
      length (filter is_backend_call (added w (snd (doPurgeSnap m t tb w)))) = 1 \<and>
      fst (doPurgeSnap m t tb w) =
        fst (Purge (backend m) (fst (SplitDeveloper (purge_Name purge))) (purge_Flags purge)
               NullProgress (bstate w))) \<and>
   (Get_rollbackState t ''state'' = Inr rollback \<longrightarrow>
      length (filter is_backend_call (added w (snd (doRollbackSnap m t tb w)))) = 1 \<and>
      fst (doRollbackSnap m t tb w) =
        snd (fst (Rollback (backend m) (fst (SplitDeveloper (rollback_Name rollback)))
                    (rollback_Version rollback) NullProgress (bstate w)))) \<and>
   (Get_setActiveState t ''state'' = Inr setActive \<longrightarrow>
      length (filter is_backend_call (added w (snd (doSetActiveSnap m t tb w)))) = 1 \<and>
      fst (doSetActiveSnap m t tb w) =
        fst (SetActive (backend m) (fst (SplitDeveloper (setActive_Name setActive)))
               (setActive_Active setActive) NullProgress (bstate w)))"
  by (simp add: ok_simps)

theorem backend_error_returned_unchanged_witness:
  "Get_installState foo_task ''state'' =
     Inr \<lparr>inst_Name = ''foo.bar'', inst_Channel = ''stable'', inst_Flags = 0\<rparr> \<and>
   Get_removeState foo_task ''state'' = Inr \<lparr>rm_Name = ''foo.bar'', rm_Flags = 0\<rparr> \<and>
   Get_purgeState foo_task ''state'' = Inr \<lparr>purge_Name = ''foo.bar'', purge_Flags = 1\<rparr> \<and>
   Get_rollbackState foo_task ''state'' =
     Inr \<lparr>rollback_Name = ''foo.bar'', rollback_Version = ''1.0''\<rparr> \<and>
   Get_setActiveState foo_task ''state'' =
     Inr \<lparr>setActive_Name = ''foo.bar'', setActive_Active = True\<rparr> \<and>
   fst (doInstallSnap test_manager foo_task (Tomb False) idle_world) = None \<and>
   fst (doUpdateSnap test_manager foo_task (Tomb False) idle_world) = None \<and>
   fst (doRemoveSnap test_manager foo_task (Tomb False) idle_world) = None \<and>
   fst (doPurgeSnap test_manager foo_task (Tomb False) idle_world) =
     Some (Errorf ''cannot purge'') \<and>
   fst (doRollbackSnap test_manager foo_task (Tomb False) idle_world) = None \<and>
   fst (doSetActiveSnap test_manager foo_task (Tomb False) idle_world) = None \<and>
   length (filter is_backend_call
     (added idle_world (snd (doPurgeSnap test_manager foo_task (Tomb False) idle_world)))) = 1"
  using backend_error_returned_unchanged [where t = foo_task and m = test_manager
      and w = idle_world and tb = "Tomb False"
      and inst = "\<lparr>inst_Name = ''foo.bar'', inst_Channel = ''stable'', inst_Flags = 0\<rparr>"
      and rm = "\<lparr>rm_Name = ''foo.bar'', rm_Flags = 0\<rparr>"
      and purge = "\<lparr>purge_Name = ''foo.bar'', purge_Flags = 1\<rparr>"
      and rollback = "\<lparr>rollback_Name = ''foo.bar'', rollback_Version = ''1.0''\<rparr>"
      and setActive = "\<lparr>setActive_Name = ''foo.bar'', setActive_Active = True\<rparr>"]
  by (simp add: foo_task_def test_manager_def test_backend_def idle_world_def
      SplitDeveloper_foo_bar)

text \<open>
  C6. A name without a developer suffix, that is without a \<open>.\<close>, is returned by
  \<open>SplitDeveloper\<close> as it is, with an empty developer; the function has no error result.
  \<open>doRemoveSnap\<close>, \<open>doPurgeSnap\<close>, \<open>doRollbackSnap\<close> and \<open>doSetActiveSnap\<close> then call the
  backend with the name of the payload unchanged.
\<close>

theorem split_bare_name_unchanged:
  "(CHR ''.'' \<notin> set name \<longrightarrow> SplitDeveloper name = (name, [])) \<and>
   (CHR ''.'' \<notin> set (rm_Name rm) \<and> Get_removeState t ''state'' = Inr rm \<longrightarrow>
      filter is_backend_call (added w (snd (doRemoveSnap m t tb w))) =
        [CallRemove (rm_Name rm) (rm_Flags rm) NullProgress]) \<and>
   (CHR ''.'' \<notin> set (purge_Name purge) \<and> Get_purgeState t ''state'' = Inr purge \<longrightarrow>
      filter is_backend_call (added w (snd (doPurgeSnap m t tb w))) =
        [CallPurge (purge_Name purge) (purge_Flags purge) NullProgress]) \<and>
   (CHR ''.'' \<notin> set (rollback_Name rollback) \<and>
    Get_rollbackState t ''state'' = Inr rollback \<longrightarrow>
      filter is_backend_call (added w (snd (doRollbackSnap m t tb w))) =
        [CallRollback (rollback_Name rollback) (rollback_Version rollback) NullProgress]) \<and>
   (CHR ''.'' \<notin> set (setActive_Name setActive) \<and>
    Get_setActiveState t ''state'' = Inr setActive \<longrightarrow>
      filter is_backend_call (added w (snd (doSetActiveSnap m t tb w))) =
        [CallSetActive (setActive_Name setActive) (setActive_Active setActive) NullProgress])"
  by (simp add: ok_simps SplitDeveloper_no_dot)

theorem split_bare_name_unchanged_witness:
  "CHR ''.'' \<notin> set ''foo'' \<and>
   Get_removeState bare_task ''state'' = Inr \<lparr>rm_Name = ''foo'', rm_Flags = 0\<rparr> \<and>
   Get_purgeState bare_task ''state'' = Inr \<lparr>purge_Name = ''foo'', purge_Flags = 0\<rparr> \<and>
   Get_rollbackState bare_task ''state'' =
     Inr \<lparr>rollback_Name = ''foo'', rollback_Version = ''''\<rparr> \<and>
   Get_setActiveState bare_task ''state'' =
     Inr \<lparr>setActive_Name = ''foo'', setActive_Active = False\<rparr> \<and>
   SplitDeveloper ''foo'' = (''foo'', '''') \<and>
   filter is_backend_call
     (added idle_world (snd (doRemoveSnap test_manager bare_task (Tomb False) idle_world))) =
     [CallRemove ''foo'' 0 NullProgress] \<and>
   filter is_backend_call
     (added idle_world (snd (doPurgeSnap test_manager bare_task (Tomb False) idle_world))) =
     [CallPurge ''foo'' 0 NullProgress] \<and>
   filter is_backend_call
     (added idle_world (snd (doRollbackSnap test_manager bare_task (Tomb False) idle_world))) =
     [CallRollback ''foo'' '''' NullProgress] \<and>
   filter is_backend_call
     (added idle_world (snd (doSetActiveSnap test_manager bare_task (Tomb False) idle_world))) =
     [CallSetActive ''foo'' False NullProgress]"
  using split_bare_name_unchanged [where name = "''foo''" and t = bare_task
      and m = test_manager and w = idle_world and tb = "Tomb False"
      and rm = "\<lparr>rm_Name = ''foo'', rm_Flags = 0\<rparr>"
      and purge = "\<lparr>purge_Name = ''foo'', purge_Flags = 0\<rparr>"
      and rollback = "\<lparr>rollback_Name = ''foo'', rollback_Version = ''''\<rparr>"
      and setActive = "\<lparr>setActive_Name = ''foo'', setActive_Active = False\<rparr>"]
  by (simp add: bare_task_def)

text \<open>
  C7. \<open>Ensure\<close>, \<open>Wait\<close> and \<open>Stop\<close> of the manager each apply the runner's operation of
  the same name to the manager's runner and change nothing else of the manager; the log
  of the runner grows by exactly that one call. \<open>Ensure\<close> returns \<open>nil\<close>.
\<close>

theorem lifecycle_forwards_to_runner:
  "fst (Ensure m) = None \<and>
   snd (Ensure m) = m\<lparr>runner := runner_Ensure (runner m)\<rparr> \<and>
   calls (runner (snd (Ensure m))) = calls (runner m) @ [EnsureCall] \<and>
   Wait m = m\<lparr>runner := runner_Wait (runner m)\<rparr> \<and>
   calls (runner (Wait m)) = calls (runner m) @ [WaitCall] \<and>
   Stop m = m\<lparr>runner := runner_Stop (runner m)\<rparr> \<and>
   calls (runner (Stop m)) = calls (runner m) @ [StopCall]"
  by (simp add: Ensure_def Wait_def Stop_def runner_Ensure_def runner_Wait_def runner_Stop_def)

text \<open>
  C8. For every state handle (and backend) \<open>Manager\<close> returns a manager and a \<open>nil\<close>
  error. The calls made on the new runner are eight \<open>AddHandler\<close> calls, one for each of
  the six production kinds and the two diagnostic kinds; the handler table has exactly
  these eight kinds, and each production kind is bound to the handler of that kind of the
  returned manager.
\<close>

theorem Manager_registers_handlers:
  "\<exists>m. Manager b s = (Some m, None) \<and>
     state m = s \<and> backend m = b \<and> runner_state (runner m) = s \<and>
     calls (runner m) =
       [AddHandlerCall ''install-snap'', AddHandlerCall ''update-snap'',
        AddHandlerCall ''remove-snap'', AddHandlerCall ''purge-snap'',
        AddHandlerCall ''rollback-snap'', AddHandlerCall ''set-active-snap'',
        AddHandlerCall ''fake-install-snap'', AddHandlerCall ''fake-install-snap-error''] \<and>
     dom (handlers (runner m)) =
       {''install-snap'', ''update-snap'', ''remove-snap'', ''purge-snap'', ''rollback-snap'',
        ''set-active-snap'', ''fake-install-snap'', ''fake-install-snap-error''} \<and>
     handlers (runner m) ''install-snap'' = Some (doInstallSnap m) \<and>
     handlers (runner m) ''update-snap'' = Some (doUpdateSnap m) \<and>
     handlers (runner m) ''remove-snap'' = Some (doRemoveSnap m) \<and>
     handlers (runner m) ''purge-snap'' = Some (doPurgeSnap m) \<and>
     handlers (runner m) ''rollback-snap'' = Some (doRollbackSnap m) \<and>
     handlers (runner m) ''set-active-snap'' = Some (doSetActiveSnap m)"
  unfolding Manager_unfold by (auto intro!: handlers_depend_on_backend)

text \<open>
  C9. The handlers registered as \<open>fake-install-snap\<close> and \<open>fake-install-snap-error\<close>
  are constant: for every task, tomb and world the first returns \<open>nil\<close> and the second
  the error \<open>fake-install-snap-error errored\<close>, and both leave the world (locks, trace,
  backend state) as it is.
\<close>

theorem diagnostic_handlers_constant:
  "\<exists>m ok ko. Manager b s = (Some m, None) \<and>
     handlers (runner m) ''fake-install-snap'' = Some ok \<and>
     (\<forall>t tb w. ok t tb w = (None, w)) \<and>
     handlers (runner m) ''fake-install-snap-error'' = Some ko \<and>
     (\<forall>t tb w. ko t tb w = (Some (Errorf ''fake-install-snap-error errored''), w))"
  unfolding Manager_unfold by simp

text \<open>
  C10. In every run of the six handlers, with the payload decoded or not, the calls
  that read or write the store's data are exactly one: a \<open>Get\<close> of key \<open>state\<close>. There
  is no second read and no \<open>Set\<close>.
\<close>

theorem payload_read_once_under_key_state:
  "filter is_data_access (added w (snd (doInstallSnap m t tb w))) = [EvGet ''state''] \<and>
   filter is_data_access (added w (snd (doUpdateSnap m t tb w))) = [EvGet ''state''] \<and>
   filter is_data_access (added w (snd (doRemoveSnap m t tb w))) = [EvGet ''state''] \<and>
   filter is_data_access (added w (snd (doPurgeSnap m t tb w))) = [EvGet ''state''] \<and>
   filter is_data_access (added w (snd (doRollbackSnap m t tb w))) = [EvGet ''state''] \<and>
   filter is_data_access (added w (snd (doSetActiveSnap m t tb w))) = [EvGet ''state'']"
  by (simp add: doInstallSnap_data_access doUpdateSnap_data_access doRemoveSnap_data_access
      doPurgeSnap_data_access doRollbackSnap_data_access doSetActiveSnap_data_access)

end
